theory Spec2Isabelle
  imports Main "HOL-Library.Word" "HOL-Library.Sublist"
begin

unbundle bit_operations_syntax

section \<open>Data model of \<^verbatim>\<open>daemon/dns/ebpfhook.go\<close>\<close>

type_synonym byte = "8 word"

text \<open>
  Go errors are values. The ones built in this file get a constructor of their own
  (\<^verbatim>\<open>errors.New("Could not find path to libc.so")\<close>,
  \<^verbatim>\<open>errors.New(fmt.Sprintf("Symbol: '%s' not found.", symbolName))\<close>,
  \<^verbatim>\<open>errors.New("Failed to find symbols for uprobes.")\<close>); the two that
  \<^verbatim>\<open>binary.Read\<close> returns on a short buffer are \<^verbatim>\<open>io.EOF\<close> and
  \<^verbatim>\<open>io.ErrUnexpectedEOF\<close>; every error handed back by a library call
  (\<^verbatim>\<open>m.Load\<close>, \<^verbatim>\<open>elf.Open\<close>, \<^verbatim>\<open>elffile.Symbols\<close>,
  \<^verbatim>\<open>bpf.AttachUprobe\<close>, \<^verbatim>\<open>bpf.InitPerfMap\<close>) is \<open>LibraryError\<close> with its message.
\<close>

datatype error =
    LibcNotFound
  | SymbolNotFound string
  | NoProbesAttached
  | EOF
  | ErrUnexpectedEOF
  | LibraryError string

text \<open>\<^verbatim>\<open>type nameLookupEvent struct { AddrType uint32; Ip [16]uint8; Host [252]byte }\<close>\<close>

record nameLookupEvent =
  AddrType :: "32 word"
  Ip :: "byte list"
  Host :: "byte list"

text \<open>The two fields of \<^verbatim>\<open>elf.Symbol\<close> that the file reads.\<close>

record symbol =
  Name :: string
  Value :: "64 word"

text \<open>
  An opened \<^verbatim>\<open>*elf.File\<close>, as far as the file uses it: what
  \<^verbatim>\<open>elffile.Symbols()\<close> returns, the symbol table in file order or an error
  (for instance when the binary has no symbol section).
\<close>

record elf_file =
  Symbols :: "error + symbol list"

section \<open>Symbol lookup\<close>

text \<open>The \<^verbatim>\<open>for _, symb := range symbols\<close> loop of \<^verbatim>\<open>lookupSymbol\<close>.\<close>

fun lookupLoop :: "symbol list \<Rightarrow> string \<Rightarrow> error + 64 word" where
  "lookupLoop [] symbolName = Inl (SymbolNotFound symbolName)"
| "lookupLoop (symb # symbols) symbolName =
     (if Name symb = symbolName then Inr (Value symb) else lookupLoop symbols symbolName)"

definition lookupSymbol :: "elf_file \<Rightarrow> string \<Rightarrow> error + 64 word" where
  "lookupSymbol elffile symbolName =
     (case Symbols elffile of
        Inl err \<Rightarrow> Inl err
      | Inr symbols \<Rightarrow> lookupLoop symbols symbolName)"

section \<open>Decoding one event buffer\<close>

text \<open>\<^verbatim>\<open>binary.LittleEndian.Uint32\<close>: \<^verbatim>\<open>b[0] | b[1]<<8 | b[2]<<16 | b[3]<<24\<close>.\<close>

definition le_uint32 :: "byte list \<Rightarrow> 32 word" where
  "le_uint32 b =
     ucast (b ! 0) OR push_bit 8 (ucast (b ! 1)) OR push_bit 16 (ucast (b ! 2))
       OR push_bit 24 (ucast (b ! 3))"

text \<open>
  \<^verbatim>\<open>binary.Read(bytes.NewBuffer(data), binary.LittleEndian, &event)\<close>: the struct has
  the fixed size 4 + 16 + 252 = 272; the call reads exactly that many bytes with
  \<^verbatim>\<open>io.ReadFull\<close> and fails on a shorter buffer (\<^verbatim>\<open>io.EOF\<close> when nothing could be
  read, \<^verbatim>\<open>io.ErrUnexpectedEOF\<close> otherwise). Bytes beyond the first 272 stay unread.
\<close>

definition binaryRead :: "byte list \<Rightarrow> error + nameLookupEvent" where
  "binaryRead data =
     (if length data < 272 then Inl (if data = [] then EOF else ErrUnexpectedEOF)
      else Inr \<lparr>AddrType = le_uint32 (take 4 data),
                Ip = take 16 (drop 4 data),
                Host = take 252 (drop 20 data)\<rparr>)"

text \<open>\<^verbatim>\<open>bytes.IndexByte(b, c)\<close>: the index of the first \<open>c\<close> in \<open>b\<close>, or \<open>-1\<close>.\<close>

fun IndexByte :: "byte list \<Rightarrow> byte \<Rightarrow> int" where
  "IndexByte [] c = - 1"
| "IndexByte (x # xs) c =
     (if x = c then 0
      else (let i = IndexByte xs c in if i < 0 then - 1 else i + 1))"

text \<open>\<^verbatim>\<open>string(bs)\<close>: a Go string holds the same bytes.\<close>

definition go_string :: "byte list \<Rightarrow> string" where
  "go_string bs = map (\<lambda>b. char_of (unat b)) bs"

text \<open>
  What one turn of the consumer's \<^verbatim>\<open>for\<close> loop does with a received buffer. A panic in
  the goroutine is not recovered anywhere, so it ends the process.
\<close>

datatype turn =
    Panic
  | DecodeFailed error
  | Track string string

text \<open>
  The body of the consumer loop. \<open>ipString\<close> stands for \<^verbatim>\<open>net.IP.String\<close> of the
  standard library, a function of the address bytes alone.

  \<^item> The arguments of \<^verbatim>\<open>log.Debug\<close> are evaluated first: \<^verbatim>\<open>data[20:]\<close> panics on a
    buffer of fewer than 20 bytes (and \<^verbatim>\<open>data[:4]\<close>, \<^verbatim>\<open>data[4:20]\<close> do not panic
    on a longer one).
  \<^item> \<^verbatim>\<open>event.Host[:i]\<close> with \<^verbatim>\<open>i = bytes.IndexByte(event.Host[:], 0)\<close> slices an
    array of 252 bytes: it panics unless \<open>0 \<le> i \<le> 252\<close>.
\<close>

definition handleData :: "(byte list \<Rightarrow> string) \<Rightarrow> byte list \<Rightarrow> turn" where
  "handleData ipString data =
     (if length data < 20 then Panic
      else
        (case binaryRead data of
           Inl err \<Rightarrow> DecodeFailed err
         | Inr event \<Rightarrow>
             (let i = IndexByte (Host event) 0 in
              if i < 0 \<or> 252 < i then Panic
              else
                (let host = go_string (take (nat i) (Host event));
                     ip = (if AddrType event = 2 then take 4 (Ip event) else Ip event)
                 in Track (ipString ip) host))))"

text \<open>
  The consumer goroutine on the buffers that arrive on the channel, in order: the calls of
  \<^verbatim>\<open>Track\<close> it makes, and whether it panicked. A buffer that fails to decode is logged
  and skipped (\<^verbatim>\<open>continue\<close>).
\<close>

fun consumer :: "(byte list \<Rightarrow> string) \<Rightarrow> byte list list \<Rightarrow> (string \<times> string) list \<times> bool" where
  "consumer ipString [] = ([], False)"
| "consumer ipString (data # rest) =
     (case handleData ipString data of
        Panic \<Rightarrow> ([], True)
      | DecodeFailed err \<Rightarrow> consumer ipString rest
      | Track ip host \<Rightarrow>
          (case consumer ipString rest of (calls, crashed) \<Rightarrow> ((ip, host) # calls, crashed)))"

section \<open>Locating the C library\<close>

text \<open>
  The C helper \<^verbatim>\<open>find_libc\<close>: the argument is the list of \<^verbatim>\<open>l_name\<close> entries of
  the process's link map, or \<open>None\<close> when \<^verbatim>\<open>dlopen\<close> or \<^verbatim>\<open>dlinfo\<close> fails. The
  result is the first name with \<^verbatim>\<open>strstr(map->l_name, "libc.so")\<close>, or \<^verbatim>\<open>NULL\<close>.
\<close>

definition find_libc :: "string list option \<Rightarrow> string option" where
  "find_libc link_map =
     (case link_map of
        None \<Rightarrow> None
      | Some names \<Rightarrow> List.find (\<lambda>l_name. sublist ''libc.so'' l_name) names)"

definition findLibc :: "string list option \<Rightarrow> error + string" where
  "findLibc link_map =
     (case find_libc link_map of
        None \<Rightarrow> Inl LibcNotFound
      | Some str \<Rightarrow> Inr str)"

section \<open>Deriving the target function of a probe\<close>

text \<open>
  \<^verbatim>\<open>strings.Replace(s, old, new, n)\<close> for a non-empty \<open>old\<close> and \<open>n \<ge> 0\<close>, the way
  the file calls it: the first \<open>n\<close> non-overlapping occurrences of \<open>old\<close> in \<open>s\<close>,
  from the left, are replaced by \<open>new\<close>.
\<close>

fun Replace :: "string \<Rightarrow> string \<Rightarrow> string \<Rightarrow> nat \<Rightarrow> string" where
  "Replace s old new 0 = s"
| "Replace [] old new (Suc n) = []"
| "Replace (c # cs) old new (Suc n) =
     (if prefix old (c # cs) then new @ Replace (drop (length old) (c # cs)) old new n
      else c # Replace cs old new (Suc n))"

text \<open>The first two statements of the body of the attachment loop.\<close>

definition probeFunction :: "string \<Rightarrow> string" where
  "probeFunction name =
     Replace (Replace name ''uretprobe/'' [] 1) ''uprobe/'' [] 1"

section \<open>The run\<close>

text \<open>
  What \<^verbatim>\<open>DnsListenerEbpf\<close> meets outside the file, one field per call it makes:
  \<^item> \<open>load\<close>: the result of \<^verbatim>\<open>m.Load(nil)\<close>;
  \<^item> \<open>link_map\<close>: the link map that \<^verbatim>\<open>find_libc\<close> walks;
  \<^item> \<open>elf_open\<close>: \<^verbatim>\<open>elf.Open\<close>;
  \<^item> \<open>uprobes\<close>: the names of the probes that \<^verbatim>\<open>m.IterUprobes()\<close> delivers, in the
    order it delivers them;
  \<^item> \<open>attach_uprobe\<close>: the result of \<^verbatim>\<open>bpf.AttachUprobe(uprobe, libcFile, offset)\<close>;
  \<^item> \<open>init_perf_map\<close>: the result of \<^verbatim>\<open>bpf.InitPerfMap(m, "events", channel, nil)\<close>;
  \<^item> \<open>signal\<close>: whether an interrupt ever arrives on \<^verbatim>\<open>sig\<close>.
\<close>

record env =
  load :: "error option"
  link_map :: "string list option"
  elf_open :: "string \<Rightarrow> error + elf_file"
  uprobes :: "string list"
  attach_uprobe :: "string \<Rightarrow> string \<Rightarrow> 64 word \<Rightarrow> error option"
  init_perf_map :: "error option"
  signal :: bool

text \<open>
  The calls with an effect outside the function, in the order the foreground path makes
  them. \<open>Close\<close> is the deferred \<^verbatim>\<open>m.Close()\<close>; \<open>GoConsumer\<close> is the \<^verbatim>\<open>go\<close>
  statement that starts the consumer.
\<close>

datatype action =
    Load
  | Close
  | LogError error
  | LogWarningSymbol string error
  | LogWarningNoSymbols
  | AttachUprobe string string "64 word"
  | InitPerfMap
  | SignalNotify
  | GoConsumer
  | PollStart
  | LogInfoSignal
  | PollStop

text \<open>The function returns an error or \<^verbatim>\<open>nil\<close>, or waits for a signal for ever.\<close>

datatype outcome = Returned "error option" | Blocked

text \<open>
  The loop \<^verbatim>\<open>for uprobe := range m.IterUprobes()\<close> on the probes still to come, with
  the running value of \<^verbatim>\<open>probes_attached\<close>: the error of the \<^verbatim>\<open>return err\<close> that
  leaves it, or the final count, and the calls made. The count never exceeds the number of
  probes of the module, so it is a \<open>nat\<close>.
\<close>

fun attachLoop :: "env \<Rightarrow> string \<Rightarrow> elf_file \<Rightarrow> string list \<Rightarrow> nat \<Rightarrow> (error + nat) \<times> action list" where
  "attachLoop e libcFile libc_elf [] probes_attached = (Inr probes_attached, [])"
| "attachLoop e libcFile libc_elf (uprobe # rest) probes_attached =
     (case lookupSymbol libc_elf (probeFunction uprobe) of
        Inl err \<Rightarrow>
          (case attachLoop e libcFile libc_elf rest probes_attached of
             (r, tr) \<Rightarrow> (r, LogWarningSymbol uprobe err # tr))
      | Inr offset \<Rightarrow>
          (case attach_uprobe e uprobe libcFile offset of
             Some err \<Rightarrow> (Inl err, [AttachUprobe uprobe libcFile offset, LogError err])
           | None \<Rightarrow>
               (case attachLoop e libcFile libc_elf rest (probes_attached + 1) of
                  (r, tr) \<Rightarrow> (r, AttachUprobe uprobe libcFile offset # tr))))"

text \<open>From \<^verbatim>\<open>channel := make(chan []byte)\<close> to the end of the function.\<close>

definition readEvents :: "env \<Rightarrow> outcome \<times> action list" where
  "readEvents e =
     (case init_perf_map e of
        Some err \<Rightarrow> (Returned (Some err), [InitPerfMap, LogError err])
      | None \<Rightarrow>
          (if signal e
           then (Returned None,
                 [InitPerfMap, SignalNotify, GoConsumer, PollStart, LogInfoSignal, PollStop])
           else (Blocked, [InitPerfMap, SignalNotify, GoConsumer, PollStart])))"

text \<open>From \<^verbatim>\<open>findLibc()\<close> to the end of the function, without the deferred call.\<close>

definition afterLoad :: "env \<Rightarrow> outcome \<times> action list" where
  "afterLoad e =
     (case findLibc (link_map e) of
        Inl err \<Rightarrow> (Returned (Some err), [LogError err])
      | Inr libcFile \<Rightarrow>
          (case elf_open e libcFile of
             Inl err \<Rightarrow> (Returned (Some err), [LogError err])
           | Inr libc_elf \<Rightarrow>
               (case attachLoop e libcFile libc_elf (uprobes e) 0 of
                  (Inl err, tr) \<Rightarrow> (Returned (Some err), tr)
                | (Inr probes_attached, tr) \<Rightarrow>
                    (if probes_attached = 0
                     then (Returned (Some NoProbesAttached), tr @ [LogWarningNoSymbols])
                     else (case readEvents e of (r, tr') \<Rightarrow> (r, tr @ tr'))))))"

text \<open>
  \<^verbatim>\<open>DnsListenerEbpf\<close>. \<^verbatim>\<open>defer m.Close()\<close> is registered once the module is loaded
  and runs at every return after that.
\<close>

definition DnsListenerEbpf :: "env \<Rightarrow> outcome \<times> action list" where
  "DnsListenerEbpf e =
     (case load e of
        Some err \<Rightarrow> (Returned (Some err), [Load, LogError err])
      | None \<Rightarrow>
          (case afterLoad e of
             (Returned r, tr) \<Rightarrow> (Returned r, Load # tr @ [Close])
           | (Blocked, tr) \<Rightarrow> (Blocked, Load # tr)))"

section \<open>Concrete inputs\<close>

text \<open>
  Decimal bytes separated by dots: what \<^verbatim>\<open>net.IP.String\<close> prints for an address of
  four bytes. It instantiates \<open>ipString\<close> where a statement is evaluated on an IPv4 event.
\<close>

definition ubtoa :: "byte \<Rightarrow> string" where
  "ubtoa b =
     (let n = unat b in
      if n < 10 then [char_of (48 + n)]
      else if n < 100 then [char_of (48 + n div 10), char_of (48 + n mod 10)]
      else [char_of (48 + n div 100), char_of (48 + n div 10 mod 10), char_of (48 + n mod 10)])"

fun dotted :: "byte list \<Rightarrow> string" where
  "dotted [] = []"
| "dotted [b] = ubtoa b"
| "dotted (b # bs) = ubtoa b @ CHR ''.'' # dotted bs"

text \<open>
  An event for \<^verbatim>\<open>example.com\<close> at 192.168.1.1: family 2, the address followed by
  twelve zero bytes, the name followed by zero padding.
\<close>

definition example_event :: "byte list" where
  "example_event =
     [2, 0, 0, 0] @ [192, 168, 1, 1] @ replicate 12 0
       @ [0x65, 0x78, 0x61, 0x6D, 0x70, 0x6C, 0x65, 0x2E, 0x63, 0x6F, 0x6D] @ replicate 241 0"

text \<open>The same event with a hostname field of 252 letters \<^verbatim>\<open>a\<close> and no zero byte.\<close>

definition unterminated_event :: "byte list" where
  "unterminated_event = [2, 0, 0, 0] @ [192, 168, 1, 1] @ replicate 12 0 @ replicate 252 0x61"

text \<open>The symbol table of the specification's example.\<close>

definition example_symbols :: "symbol list" where
  "example_symbols =
     [\<lparr>Name = ''getaddrinfo'', Value = 0x1234\<rparr>, \<lparr>Name = ''gethostbyname'', Value = 0x5678\<rparr>]"

definition example_elf :: elf_file where
  "example_elf = \<lparr>Symbols = Inr example_symbols\<rparr>"

text \<open>A library whose symbol table cannot be read.\<close>

definition stripped_elf :: elf_file where
  "stripped_elf = \<lparr>Symbols = Inl (LibraryError ''no symbol section'')\<rparr>"

text \<open>
  A run in which everything succeeds: three probes are declared, the third for a function
  the library does not have.
\<close>

definition example_env :: env where
  "example_env =
     \<lparr>load = None,
      link_map = Some [''/bin/app'', ''/lib/libc.so.6''],
      elf_open = (\<lambda>path. Inr example_elf),
      uprobes = [''uprobe/getaddrinfo'', ''uretprobe/getaddrinfo'', ''uprobe/getnameinfo''],
      attach_uprobe = (\<lambda>name path offset. None),
      init_perf_map = None,
      signal = True\<rparr>"

text \<open>The same run with a perf map that cannot be initialised.\<close>

definition no_events_env :: env where
  "no_events_env = example_env\<lparr>init_perf_map := Some (LibraryError ''no map events'')\<rparr>"

text \<open>The same run with a kernel that rejects the attachment of return probes.\<close>

definition rejecting_env :: env where
  "rejecting_env =
     example_env\<lparr>attach_uprobe :=
       (\<lambda>name path offset.
          if prefix ''uretprobe/'' name then Some (LibraryError ''rejected'') else None)\<rparr>"

text \<open>The same run on the library without a readable symbol table.\<close>

definition stripped_env :: env where
  "stripped_env = example_env\<lparr>elf_open := (\<lambda>path. Inr stripped_elf)\<rparr>"

section \<open>Facts about the library functions\<close>

lemma IndexByte_absent: "c \<notin> set xs \<Longrightarrow> IndexByte xs c = - 1"
  by (induction xs) (auto simp: Let_def)

lemma IndexByte_present:
  "c \<in> set xs \<Longrightarrow> IndexByte xs c = int (length (takeWhile (\<lambda>b. b \<noteq> c) xs))"
  by (induction xs) (auto simp: Let_def)

lemma IndexByte_take:
  "c \<in> set xs \<Longrightarrow> take (nat (IndexByte xs c)) xs = takeWhile (\<lambda>b. b \<noteq> c) xs"
  by (simp add: IndexByte_present takeWhile_eq_take [symmetric])

lemma IndexByte_le: "IndexByte xs c \<le> int (length xs)"
  by (cases "c \<in> set xs") (auto simp: IndexByte_present IndexByte_absent length_takeWhile_le)

lemma Replace_absent: "\<not> sublist old s \<Longrightarrow> Replace s old new n = s"
proof (induction s old new n rule: Replace.induct)
  case (3 c cs old new n)
  have np: "\<not> prefix old (c # cs)"
    using "3.prems" by (auto simp: sublist_Cons_right)
  have ns: "\<not> sublist old cs"
    using "3.prems" by (auto simp: sublist_Cons_right)
  show ?case
    using np ns "3.IH"(2) by simp
qed simp_all

section \<open>Decoding\<close>

lemma binaryRead_ok:
  "272 \<le> length data \<Longrightarrow>
   binaryRead data =
     Inr \<lparr>AddrType = le_uint32 (take 4 data), Ip = take 16 (drop 4 data),
          Host = take 252 (drop 20 data)\<rparr>"
  by (simp add: binaryRead_def)

lemma binaryRead_Inr_iff: "(\<exists>event. binaryRead data = Inr event) \<longleftrightarrow> 272 \<le> length data"
  by (auto simp: binaryRead_def)

lemma handleData_no_zero:
  assumes "272 \<le> length data" and "0 \<notin> set (take 252 (drop 20 data))"
  shows "handleData ipString data = Panic"
  using assms by (simp add: handleData_def binaryRead_ok IndexByte_absent)

lemma handleData_zero:
  assumes "272 \<le> length data" and "0 \<in> set (take 252 (drop 20 data))"
  shows "handleData ipString data =
    Track (ipString (if le_uint32 (take 4 data) = 2 then take 4 (drop 4 data)
                     else take 16 (drop 4 data)))
          (go_string (takeWhile (\<lambda>b. b \<noteq> 0) (take 252 (drop 20 data))))"
proof -
  let ?h = "take 252 (drop 20 data)"
  have "IndexByte ?h 0 \<le> int (length ?h)"
    by (rule IndexByte_le)
  moreover have "length ?h = 252"
    using assms(1) by simp
  ultimately have le: "IndexByte ?h 0 \<le> 252"
    by simp
  have ge: "0 \<le> IndexByte ?h 0"
    using assms(2) by (simp add: IndexByte_present)
  have tk: "take (nat (IndexByte ?h 0)) ?h = takeWhile (\<lambda>b. b \<noteq> 0) ?h"
    using assms(2) by (rule IndexByte_take)
  have ip: "take 4 (take 16 (drop 4 data)) = take 4 (drop 4 data)"
    by simp
  show ?thesis
    using assms(1) le ge
    by (simp only: handleData_def binaryRead_ok Let_def nameLookupEvent.simps tk ip
          sum.case) simp
qed

lemma example_event_length: "length example_event = 272"
  by (simp add: example_event_def)

lemma example_event_host:
  "take 252 (drop 20 example_event) =
     [0x65, 0x78, 0x61, 0x6D, 0x70, 0x6C, 0x65, 0x2E, 0x63, 0x6F, 0x6D] @ replicate 241 0"
  by (simp add: example_event_def)

lemma example_event_family: "le_uint32 (take 4 example_event) = 2"
  by (simp add: example_event_def le_uint32_def)

lemma example_event_address: "take 16 (drop 4 example_event) = [192, 168, 1, 1] @ replicate 12 0"
  by (simp add: example_event_def)

lemma example_event_address4: "take 4 (drop 4 example_event) = [192, 168, 1, 1]"
  by (simp add: example_event_def)

lemma example_event_read:
  "binaryRead example_event =
     Inr \<lparr>AddrType = 2, Ip = [192, 168, 1, 1] @ replicate 12 0,
          Host = [0x65, 0x78, 0x61, 0x6D, 0x70, 0x6C, 0x65, 0x2E, 0x63, 0x6F, 0x6D]
                   @ replicate 241 0\<rparr>"
  by (simp add: binaryRead_ok example_event_length example_event_host example_event_family
        example_event_address)

lemma example_host_string:
  "go_string [0x65, 0x78, 0x61, 0x6D, 0x70, 0x6C, 0x65, 0x2E, 0x63, 0x6F, 0x6D] = ''example.com''"
  by (simp add: go_string_def char_of_def bit_Suc_0_iff)

lemma example_dotted: "dotted [192, 168, 1, 1] = ''192.168.1.1''"
  by (simp add: ubtoa_def char_of_def bit_Suc_0_iff)

lemma unterminated_event_length: "length unterminated_event = 272"
  by (simp add: unterminated_event_def)

lemma unterminated_event_host: "take 252 (drop 20 unterminated_event) = replicate 252 0x61"
  by (simp add: unterminated_event_def)

text \<open>
  C1. Claimed: a buffer whose hostname field of 252 bytes holds no zero byte is decoded
  without a failure, the whole field becoming the hostname. The code does otherwise: for
  such a buffer \<^verbatim>\<open>bytes.IndexByte\<close> returns \<open>-1\<close>, the slice expression
  \<^verbatim>\<open>event.Host[:-1]\<close> panics, and the panic ends the consumer before any call of
  \<^verbatim>\<open>Track\<close>.
\<close>

theorem unterminated_host_panics:
  assumes "272 \<le> length data" and "0 \<notin> set (take 252 (drop 20 data))"
  shows "handleData ipString data = Panic \<and> consumer ipString (data # rest) = ([], True)"
  using assms by (simp add: handleData_no_zero)

theorem unterminated_host_panics_witness:
  "272 \<le> length unterminated_event
   \<and> 0 \<notin> set (take 252 (drop 20 unterminated_event))
   \<and> handleData dotted unterminated_event = Panic
   \<and> consumer dotted [unterminated_event, example_event] = ([], True)"
proof -
  have l: "272 \<le> length unterminated_event"
    by (simp add: unterminated_event_length)
  have z: "0 \<notin> set (take 252 (drop 20 unterminated_event))"
    by (simp add: unterminated_event_host)
  show ?thesis
    using l z unterminated_host_panics [OF l z, of dotted "[example_event]"] by simp
qed

text \<open>
  C3. For a buffer that decodes (\<^verbatim>\<open>binary.Read\<close> returns no error), with the event
  record it decodes to: whenever the turn of the consumer calls \<^verbatim>\<open>Track\<close>, the address
  passed is the text of the first four bytes of the address field when the family is 2 and
  the text of all sixteen bytes otherwise; the address field is bytes 4 to 19 of the buffer;
  and the call is made whenever the hostname field holds a zero byte.
\<close>

theorem address_width_by_family:
  assumes "binaryRead data = Inr event"
  shows "(AddrType event = 2 \<longrightarrow>
            (\<forall>ip host. handleData ipString data = Track ip host \<longrightarrow>
               ip = ipString (take 4 (Ip event))))
       \<and> (AddrType event \<noteq> 2 \<longrightarrow>
            (\<forall>ip host. handleData ipString data = Track ip host \<longrightarrow>
               ip = ipString (Ip event)))
       \<and> Ip event = take 16 (drop 4 data) \<and> length (Ip event) = 16
       \<and> AddrType event = le_uint32 (take 4 data)
       \<and> (0 \<in> set (Host event) \<longrightarrow> (\<exists>ip host. handleData ipString data = Track ip host))"
proof -
  have len: "272 \<le> length data"
    using assms binaryRead_Inr_iff by blast
  have ev: "event = \<lparr>AddrType = le_uint32 (take 4 data), Ip = take 16 (drop 4 data),
                     Host = take 252 (drop 20 data)\<rparr>"
    using assms binaryRead_ok [OF len] by simp
  have tr: "handleData ipString data = Track ip host \<Longrightarrow>
      ip = ipString (if AddrType event = 2 then take 4 (Ip event) else Ip event)" for ip host
    using assms len by (auto simp: handleData_def Let_def split: if_splits)
  have ex: "0 \<in> set (Host event) \<Longrightarrow> \<exists>ip host. handleData ipString data = Track ip host"
    using handleData_zero [OF len, of ipString] by (simp add: ev)
  have l16: "length (Ip event) = 16"
    using len by (simp add: ev)
  show ?thesis
    using tr ex l16 by (auto simp: ev)
qed

lemma example_event_handled:
  "handleData dotted example_event = Track ''192.168.1.1'' ''example.com''"
  by (simp add: handleData_zero example_event_length example_event_host example_event_family
        example_event_address4 example_dotted example_host_string del: dotted.simps)

theorem address_width_by_family_witness:
  "binaryRead example_event =
     Inr \<lparr>AddrType = 2, Ip = [192, 168, 1, 1] @ replicate 12 0,
          Host = [0x65, 0x78, 0x61, 0x6D, 0x70, 0x6C, 0x65, 0x2E, 0x63, 0x6F, 0x6D]
                   @ replicate 241 0\<rparr>
   \<and> handleData dotted example_event = Track ''192.168.1.1'' ''example.com''
   \<and> dotted (take 4 ([192, 168, 1, 1] @ replicate 12 0)) = ''192.168.1.1''"
proof -
  let ?ev = "\<lparr>AddrType = 2, Ip = [192, 168, 1, 1] @ replicate 12 0,
          Host = [0x65, 0x78, 0x61, 0x6D, 0x70, 0x6C, 0x65, 0x2E, 0x63, 0x6F, 0x6D]
                   @ replicate 241 0\<rparr>"
  have r: "binaryRead example_event = Inr ?ev"
    by (rule example_event_read)
  from address_width_by_family [OF r, of dotted]
  have "AddrType ?ev = 2 \<longrightarrow>
          (\<forall>ip host. handleData dotted example_event = Track ip host \<longrightarrow>
             ip = dotted (take 4 (Ip ?ev)))"
    by (rule conjunct1)
  then have "\<forall>ip host. handleData dotted example_event = Track ip host \<longrightarrow>
          ip = dotted (take 4 (Ip ?ev))"
    by (simp del: dotted.simps)
  then have "''192.168.1.1'' = dotted (take 4 (Ip ?ev))"
    using example_event_handled by blast
  then show ?thesis
    using r example_event_handled by (simp del: dotted.simps)
qed

text \<open>
  C4. For a buffer that decodes and whose hostname field (bytes 20 to 271) holds a zero
  byte, the turn of the consumer calls \<^verbatim>\<open>Track\<close> with exactly the bytes of the field
  before its first zero byte as the hostname, and that call is the next one the sink sees.
\<close>

theorem hostname_before_first_zero:
  assumes "binaryRead data = Inr event" and "0 \<in> set (Host event)"
  shows "\<exists>ip. handleData ipString data
                = Track ip (go_string (takeWhile (\<lambda>b. b \<noteq> 0) (Host event)))
            \<and> fst (consumer ipString (data # rest))
                = (ip, go_string (takeWhile (\<lambda>b. b \<noteq> 0) (Host event)))
                    # fst (consumer ipString rest)"
proof -
  have len: "272 \<le> length data"
    using assms(1) binaryRead_Inr_iff by blast
  have ev: "Host event = take 252 (drop 20 data)"
    using assms(1) binaryRead_ok [OF len] by auto
  have z: "0 \<in> set (take 252 (drop 20 data))"
    using assms(2) by (simp add: ev)
  show ?thesis
    by (simp add: handleData_zero [OF len z] ev case_prod_beta)
qed

theorem hostname_before_first_zero_witness:
  "fst (consumer dotted [example_event]) = [(''192.168.1.1'', ''example.com'')]"
proof -
  let ?h = "[0x65, 0x78, 0x61, 0x6D, 0x70, 0x6C, 0x65, 0x2E, 0x63, 0x6F, 0x6D] @ replicate 241 (0::byte)"
  let ?ev = "\<lparr>AddrType = 2, Ip = [192, 168, 1, 1] @ replicate 12 0, Host = ?h\<rparr>"
  have r: "binaryRead example_event = Inr ?ev"
    by (rule example_event_read)
  have z: "0 \<in> set (Host ?ev)"
    by simp
  have tw: "takeWhile (\<lambda>b. b \<noteq> 0) (Host ?ev)
              = [0x65, 0x78, 0x61, 0x6D, 0x70, 0x6C, 0x65, 0x2E, 0x63, 0x6F, 0x6D]"
    by simp
  from hostname_before_first_zero [OF r z, of dotted "[]"]
  obtain ip where
    h: "handleData dotted example_event
          = Track ip (go_string (takeWhile (\<lambda>b. b \<noteq> 0) (Host ?ev)))" and
    c: "fst (consumer dotted [example_event])
          = [(ip, go_string (takeWhile (\<lambda>b. b \<noteq> 0) (Host ?ev)))]"
    by auto
  from h have "ip = ''192.168.1.1''"
    by (simp only: example_event_handled turn.inject)
  with c show ?thesis
    by (simp only: tw example_host_string)
qed

section \<open>Symbol lookup\<close>

lemma lookupLoop_absent:
  "symbolName \<notin> Name ` set symbols \<Longrightarrow>
   lookupLoop symbols symbolName = Inl (SymbolNotFound symbolName)"
  by (induction symbols) auto

lemma lookupLoop_present:
  "symbolName \<in> Name ` set symbols \<Longrightarrow>
   \<exists>symb. List.find (\<lambda>s. Name s = symbolName) symbols = Some symb
          \<and> lookupLoop symbols symbolName = Inr (Value symb)"
  by (induction symbols) auto

lemma lookupLoop_distinct:
  "distinct (map Name symbols) \<Longrightarrow> symb \<in> set symbols \<Longrightarrow>
   lookupLoop symbols (Name symb) = Inr (Value symb)"
  by (induction symbols) (auto simp: image_iff)

text \<open>
  C7. On a binary whose symbol table can be read: when the table has an entry with the
  requested name, \<^verbatim>\<open>lookupSymbol\<close> returns the recorded value of the first such entry
  in table order (the entry the linear search meets); when it has none, the call fails with
  the symbol-not-found error for that name. When the names of the table are distinct, every
  entry is resolved to its own value.
\<close>

theorem lookupSymbol_linear_match:
  assumes "Symbols elffile = Inr symbols"
  shows "(symbolName \<in> Name ` set symbols \<longrightarrow>
            (\<exists>symb. List.find (\<lambda>s. Name s = symbolName) symbols = Some symb
                   \<and> symb \<in> set symbols \<and> Name symb = symbolName
                   \<and> lookupSymbol elffile symbolName = Inr (Value symb)))
       \<and> (symbolName \<notin> Name ` set symbols \<longrightarrow>
            lookupSymbol elffile symbolName = Inl (SymbolNotFound symbolName))
       \<and> (distinct (map Name symbols) \<longrightarrow>
            (\<forall>symb \<in> set symbols. lookupSymbol elffile (Name symb) = Inr (Value symb)))"
proof (intro conjI impI ballI)
  assume "symbolName \<in> Name ` set symbols"
  then obtain symb where f: "List.find (\<lambda>s. Name s = symbolName) symbols = Some symb"
    and v: "lookupLoop symbols symbolName = Inr (Value symb)"
    using lookupLoop_present by blast
  from f have "symb \<in> set symbols \<and> Name symb = symbolName"
    by (auto simp: find_Some_iff)
  with f v show "\<exists>symb. List.find (\<lambda>s. Name s = symbolName) symbols = Some symb
      \<and> symb \<in> set symbols \<and> Name symb = symbolName
      \<and> lookupSymbol elffile symbolName = Inr (Value symb)"
    using assms by (auto simp: lookupSymbol_def)
next
  assume "symbolName \<notin> Name ` set symbols"
  then show "lookupSymbol elffile symbolName = Inl (SymbolNotFound symbolName)"
    using assms by (simp add: lookupSymbol_def lookupLoop_absent)
next
  fix symb
  assume "distinct (map Name symbols)" and "symb \<in> set symbols"
  then show "lookupSymbol elffile (Name symb) = Inr (Value symb)"
    using assms by (simp add: lookupSymbol_def lookupLoop_distinct)
qed

theorem lookupSymbol_linear_match_witness:
  "lookupSymbol example_elf ''getaddrinfo'' = Inr 0x1234
   \<and> lookupSymbol example_elf ''nonexistent'' = Inl (SymbolNotFound ''nonexistent'')"
proof -
  have s: "Symbols example_elf = Inr example_symbols"
    by (simp add: example_elf_def)
  have p: "''getaddrinfo'' \<in> Name ` set example_symbols"
    by (simp add: example_symbols_def)
  have a: "''nonexistent'' \<notin> Name ` set example_symbols"
    by (simp add: example_symbols_def)
  have f: "List.find (\<lambda>s. Name s = ''getaddrinfo'') example_symbols
             = Some \<lparr>Name = ''getaddrinfo'', Value = 0x1234\<rparr>"
    by (simp add: example_symbols_def)
  from lookupSymbol_linear_match [OF s, of "''getaddrinfo''"] p f
  have "lookupSymbol example_elf ''getaddrinfo'' = Inr 0x1234"
    by auto
  moreover from lookupSymbol_linear_match [OF s, of "''nonexistent''"] a
  have "lookupSymbol example_elf ''nonexistent'' = Inl (SymbolNotFound ''nonexistent'')"
    by blast
  ultimately show ?thesis
    by simp
qed

section \<open>Target functions\<close>

lemma probeFunction_uprobe:
  assumes "\<not> sublist ''uretprobe/'' f"
  shows "probeFunction (''uprobe/'' @ f) = f"
proof -
  have "Replace (''uprobe/'' @ f) ''uretprobe/'' [] 1 = ''uprobe/'' @ f"
    using assms by (simp add: Replace_absent)
  then show ?thesis
    by (simp add: probeFunction_def)
qed

lemma probeFunction_uretprobe:
  assumes "\<not> sublist ''uprobe/'' f"
  shows "probeFunction (''uretprobe/'' @ f) = f"
proof -
  have "Replace (''uretprobe/'' @ f) ''uretprobe/'' [] 1 = f"
    by simp
  then show ?thesis
    using assms by (simp add: probeFunction_def Replace_absent)
qed

lemma getaddrinfo_plain:
  "\<not> sublist ''uretprobe/'' ''getaddrinfo'' \<and> \<not> sublist ''uprobe/'' ''getaddrinfo''"
  by (simp add: sublist_Cons_right)

section \<open>The attachment pass\<close>

lemma attachLoop_skip:
  "lookupSymbol libc_elf (probeFunction uprobe) = Inl err \<Longrightarrow>
   attachLoop e libcFile libc_elf (uprobe # rest) n =
     (fst (attachLoop e libcFile libc_elf rest n),
      LogWarningSymbol uprobe err # snd (attachLoop e libcFile libc_elf rest n))"
  by (simp add: case_prod_beta)

lemma attachLoop_append:
  "attachLoop e libcFile libc_elf (xs @ ys) n =
     (case attachLoop e libcFile libc_elf xs n of
        (Inl err, tr) \<Rightarrow> (Inl err, tr)
      | (Inr m, tr) \<Rightarrow>
          (fst (attachLoop e libcFile libc_elf ys m),
           tr @ snd (attachLoop e libcFile libc_elf ys m)))"
  by (induction xs arbitrary: n) (auto split: sum.splits option.splits prod.splits)

lemma attachLoop_quiet:
  "InitPerfMap \<notin> set (snd (attachLoop e libcFile libc_elf us n)) \<and>
   PollStart \<notin> set (snd (attachLoop e libcFile libc_elf us n))"
  by (induction us arbitrary: n) (simp_all add: case_prod_beta split: sum.splits option.splits)

lemma attachLoop_all_skipped:
  "Symbols libc_elf = Inl err \<Longrightarrow>
   attachLoop e libcFile libc_elf us n = (Inr n, map (\<lambda>u. LogWarningSymbol u err) us)"
  by (induction us) (auto simp: lookupSymbol_def)

lemma example_libc: "findLibc (Some [''/bin/app'', ''/lib/libc.so.6'']) = Inr ''/lib/libc.so.6''"
  by (simp add: findLibc_def find_libc_def sublist_Cons_right)

lemma example_targets:
  "probeFunction ''uprobe/getaddrinfo'' = ''getaddrinfo''"
  "probeFunction ''uretprobe/getaddrinfo'' = ''getaddrinfo''"
  "probeFunction ''uprobe/getnameinfo'' = ''getnameinfo''"
  by (simp_all add: probeFunction_def)

lemma example_lookups:
  "lookupSymbol example_elf ''getaddrinfo'' = Inr 0x1234"
  "lookupSymbol example_elf ''getnameinfo'' = Inl (SymbolNotFound ''getnameinfo'')"
  by (simp_all add: lookupSymbol_def example_elf_def example_symbols_def)

lemma example_pass:
  "attachLoop example_env ''/lib/libc.so.6'' example_elf (uprobes example_env) 0 =
     (Inr 2,
      [AttachUprobe ''uprobe/getaddrinfo'' ''/lib/libc.so.6'' 0x1234,
       AttachUprobe ''uretprobe/getaddrinfo'' ''/lib/libc.so.6'' 0x1234,
       LogWarningSymbol ''uprobe/getnameinfo'' (SymbolNotFound ''getnameinfo'')])"
  by (simp add: example_env_def example_targets example_lookups)

text \<open>
  C8, as the code has it. The two calls of \<^verbatim>\<open>strings.Replace\<close> remove the first
  occurrence of \<^verbatim>\<open>uretprobe/\<close> and then the first occurrence of \<^verbatim>\<open>uprobe/\<close>
  wherever they stand in the name. So the target derived from \<^verbatim>\<open>uprobe/<f>\<close> is
  \<open>f\<close> when \<open>f\<close> does not contain \<^verbatim>\<open>uretprobe/\<close>, and the target derived from
  \<^verbatim>\<open>uretprobe/<f>\<close> is \<open>f\<close> when \<open>f\<close> does not contain \<^verbatim>\<open>uprobe/\<close>. For
  such an \<open>f\<close> the turn of the loop is the same for both names: the symbol looked up is
  \<open>f\<close>, and the attach request goes to the library path with the offset found for \<open>f\<close>.
\<close>

theorem probeFunction_strips_kind:
  "(\<not> sublist ''uretprobe/'' f \<longrightarrow> probeFunction (''uprobe/'' @ f) = f)
   \<and> (\<not> sublist ''uprobe/'' f \<longrightarrow> probeFunction (''uretprobe/'' @ f) = f)
   \<and> (\<not> sublist ''uretprobe/'' f \<and> \<not> sublist ''uprobe/'' f
        \<and> (name = ''uprobe/'' @ f \<or> name = ''uretprobe/'' @ f) \<longrightarrow>
      attachLoop e libcFile libc_elf (name # rest) n =
        (case lookupSymbol libc_elf f of
           Inl err \<Rightarrow>
             (fst (attachLoop e libcFile libc_elf rest n),
              LogWarningSymbol name err # snd (attachLoop e libcFile libc_elf rest n))
         | Inr offset \<Rightarrow>
             (case attach_uprobe e name libcFile offset of
                Some err \<Rightarrow> (Inl err, [AttachUprobe name libcFile offset, LogError err])
              | None \<Rightarrow>
                  (fst (attachLoop e libcFile libc_elf rest (n + 1)),
                   AttachUprobe name libcFile offset
                     # snd (attachLoop e libcFile libc_elf rest (n + 1))))))"
proof (intro conjI impI)
  assume "\<not> sublist ''uretprobe/'' f"
  then show "probeFunction (''uprobe/'' @ f) = f"
    by (rule probeFunction_uprobe)
next
  assume "\<not> sublist ''uprobe/'' f"
  then show "probeFunction (''uretprobe/'' @ f) = f"
    by (rule probeFunction_uretprobe)
next
  assume a: "\<not> sublist ''uretprobe/'' f \<and> \<not> sublist ''uprobe/'' f
      \<and> (name = ''uprobe/'' @ f \<or> name = ''uretprobe/'' @ f)"
  then have pf: "probeFunction name = f"
    using probeFunction_uprobe probeFunction_uretprobe by blast
  show "attachLoop e libcFile libc_elf (name # rest) n =
        (case lookupSymbol libc_elf f of
           Inl err \<Rightarrow>
             (fst (attachLoop e libcFile libc_elf rest n),
              LogWarningSymbol name err # snd (attachLoop e libcFile libc_elf rest n))
         | Inr offset \<Rightarrow>
             (case attach_uprobe e name libcFile offset of
                Some err \<Rightarrow> (Inl err, [AttachUprobe name libcFile offset, LogError err])
              | None \<Rightarrow>
                  (fst (attachLoop e libcFile libc_elf rest (n + 1)),
                   AttachUprobe name libcFile offset
                     # snd (attachLoop e libcFile libc_elf rest (n + 1)))))"
    by (simp add: pf case_prod_beta split: sum.splits option.splits)
qed

theorem probeFunction_strips_kind_witness:
  "probeFunction ''uprobe/getaddrinfo'' = ''getaddrinfo''
   \<and> probeFunction ''uretprobe/getaddrinfo'' = ''getaddrinfo''"
proof -
  have a: "\<not> sublist ''uretprobe/'' ''getaddrinfo''" and b: "\<not> sublist ''uprobe/'' ''getaddrinfo''"
    using getaddrinfo_plain by simp_all
  from probeFunction_strips_kind [of "''getaddrinfo''"] a b
  have "probeFunction (''uprobe/'' @ ''getaddrinfo'') = ''getaddrinfo''
      \<and> probeFunction (''uretprobe/'' @ ''getaddrinfo'') = ''getaddrinfo''"
    by blast
  then show ?thesis
    by simp
qed

text \<open>
  C8, as claimed, fails: the raw name \<^verbatim>\<open>uretprobe/uprobe/x\<close> has the form
  \<^verbatim>\<open>uretprobe/<f>\<close> with \<open>f\<close> = \<^verbatim>\<open>uprobe/x\<close>, and the target derived is \<^verbatim>\<open>x\<close>.
\<close>

theorem probeFunction_counterexample:
  "probeFunction (''uretprobe/'' @ ''uprobe/x'') = ''x''
   \<and> probeFunction (''uretprobe/'' @ ''uprobe/x'') \<noteq> ''uprobe/x''"
  by (simp add: probeFunction_def)

text \<open>
  C5. When the symbol table of the library can be read and has no entry named as the
  target function of a probe, the turn of the loop for that probe logs a warning and
  attaches nothing, and the outcome of the pass from there on (the error that leaves the
  loop, or the final count) is the outcome of the pass on the remaining probes, with the
  same running count.
\<close>

theorem missing_symbol_is_skipped:
  assumes "Symbols libc_elf = Inr symbols"
    and "probeFunction uprobe \<notin> Name ` set symbols"
  shows "lookupSymbol libc_elf (probeFunction uprobe)
           = Inl (SymbolNotFound (probeFunction uprobe))
       \<and> attachLoop e libcFile libc_elf (uprobe # rest) n =
           (fst (attachLoop e libcFile libc_elf rest n),
            LogWarningSymbol uprobe (SymbolNotFound (probeFunction uprobe))
              # snd (attachLoop e libcFile libc_elf rest n))"
proof -
  have l: "lookupSymbol libc_elf (probeFunction uprobe)
             = Inl (SymbolNotFound (probeFunction uprobe))"
    using assms by (simp add: lookupSymbol_def lookupLoop_absent)
  then show ?thesis
    using attachLoop_skip [OF l] by simp
qed

theorem missing_symbol_is_skipped_witness:
  "attachLoop example_env ''/lib/libc.so.6'' example_elf
     [''uprobe/getnameinfo'', ''uprobe/getaddrinfo''] 0 =
     (Inr 1,
      [LogWarningSymbol ''uprobe/getnameinfo'' (SymbolNotFound ''getnameinfo''),
       AttachUprobe ''uprobe/getaddrinfo'' ''/lib/libc.so.6'' 0x1234])"
proof -
  have s: "Symbols example_elf = Inr example_symbols"
    by (simp add: example_elf_def)
  have a: "probeFunction ''uprobe/getnameinfo'' \<notin> Name ` set example_symbols"
    by (simp add: example_targets example_symbols_def)
  have r: "attachLoop example_env ''/lib/libc.so.6'' example_elf [''uprobe/getaddrinfo''] 0 =
      (Inr 1, [AttachUprobe ''uprobe/getaddrinfo'' ''/lib/libc.so.6'' 0x1234])"
    by (simp add: example_env_def example_targets example_lookups)
  from missing_symbol_is_skipped [OF s a, of example_env "''/lib/libc.so.6''"
      "[''uprobe/getaddrinfo'']" 0]
  show ?thesis
    by (simp only: r example_targets fst_conv snd_conv)
qed

text \<open>
  C10. When \<^verbatim>\<open>elffile.Symbols()\<close> itself fails, \<^verbatim>\<open>lookupSymbol\<close> hands that error
  back and the loop treats it as it treats a missing symbol: a warning, no attachment, and
  on to the remaining probes. Every probe is skipped that way, the count stays where it
  was, and a run that reaches the pass ends with the error for no attached probe, not with
  the error of the symbol table.
\<close>

theorem unreadable_symbols_are_skipped:
  assumes "Symbols libc_elf = Inl err"
  shows "lookupSymbol libc_elf (probeFunction uprobe) = Inl err
       \<and> attachLoop e libcFile libc_elf (uprobe # rest) n =
           (fst (attachLoop e libcFile libc_elf rest n),
            LogWarningSymbol uprobe err # snd (attachLoop e libcFile libc_elf rest n))
       \<and> attachLoop e libcFile libc_elf us n =
           (Inr n, map (\<lambda>u. LogWarningSymbol u err) us)
       \<and> (load e = None \<and> findLibc (link_map e) = Inr libcFile
            \<and> elf_open e libcFile = Inr libc_elf \<longrightarrow>
          DnsListenerEbpf e =
            (Returned (Some NoProbesAttached),
             Load # map (\<lambda>u. LogWarningSymbol u err) (uprobes e)
               @ [LogWarningNoSymbols, Close]))"
proof -
  have l: "lookupSymbol libc_elf (probeFunction uprobe) = Inl err"
    using assms by (simp add: lookupSymbol_def)
  have all: "attachLoop e libcFile libc_elf us n =
      (Inr n, map (\<lambda>u. LogWarningSymbol u err) us)" for us n
    using assms by (rule attachLoop_all_skipped)
  have run: "DnsListenerEbpf e =
      (Returned (Some NoProbesAttached),
       Load # map (\<lambda>u. LogWarningSymbol u err) (uprobes e) @ [LogWarningNoSymbols, Close])"
    if "load e = None" "findLibc (link_map e) = Inr libcFile" "elf_open e libcFile = Inr libc_elf"
    using that by (simp add: DnsListenerEbpf_def afterLoad_def all)
  show ?thesis
    using l attachLoop_skip [OF l] all run by blast
qed

theorem unreadable_symbols_are_skipped_witness:
  "DnsListenerEbpf stripped_env =
     (Returned (Some NoProbesAttached),
      [Load,
       LogWarningSymbol ''uprobe/getaddrinfo'' (LibraryError ''no symbol section''),
       LogWarningSymbol ''uretprobe/getaddrinfo'' (LibraryError ''no symbol section''),
       LogWarningSymbol ''uprobe/getnameinfo'' (LibraryError ''no symbol section''),
       LogWarningNoSymbols, Close])"
proof -
  have s: "Symbols stripped_elf = Inl (LibraryError ''no symbol section'')"
    by (simp add: stripped_elf_def)
  have env: "load stripped_env = None
      \<and> findLibc (link_map stripped_env) = Inr ''/lib/libc.so.6''
      \<and> elf_open stripped_env ''/lib/libc.so.6'' = Inr stripped_elf"
    by (simp add: stripped_env_def example_env_def example_libc)
  have u: "uprobes stripped_env
      = [''uprobe/getaddrinfo'', ''uretprobe/getaddrinfo'', ''uprobe/getnameinfo'']"
    by (simp add: stripped_env_def example_env_def)
  from unreadable_symbols_are_skipped [OF s, of _ stripped_env "''/lib/libc.so.6''"] env
  have "DnsListenerEbpf stripped_env =
      (Returned (Some NoProbesAttached),
       Load # map (\<lambda>u. LogWarningSymbol u (LibraryError ''no symbol section''))
         (uprobes stripped_env) @ [LogWarningNoSymbols, Close])"
    by blast
  then show ?thesis
    by (simp add: u)
qed

section \<open>The run\<close>

lemma run_after_pass:
  assumes "load e = None" and "findLibc (link_map e) = Inr libcFile"
    and "elf_open e libcFile = Inr libc_elf"
    and "attachLoop e libcFile libc_elf (uprobes e) 0 = (r, tr)"
  shows "DnsListenerEbpf e =
     (case r of
        Inl err \<Rightarrow> (Returned (Some err), Load # tr @ [Close])
      | Inr probes_attached \<Rightarrow>
          (if probes_attached = 0
           then (Returned (Some NoProbesAttached), Load # tr @ [LogWarningNoSymbols, Close])
           else
             (case init_perf_map e of
                Some err \<Rightarrow> (Returned (Some err), Load # tr @ [InitPerfMap, LogError err, Close])
              | None \<Rightarrow>
                  (if signal e
                   then (Returned None,
                         Load # tr @ [InitPerfMap, SignalNotify, GoConsumer, PollStart,
                                      LogInfoSignal, PollStop, Close])
                   else (Blocked,
                         Load # tr @ [InitPerfMap, SignalNotify, GoConsumer, PollStart])))))"
  using assms
  by (simp add: DnsListenerEbpf_def afterLoad_def readEvents_def
        split: sum.splits option.splits)

text \<open>
  C6. When the symbol of a probe resolves and \<^verbatim>\<open>bpf.AttachUprobe\<close> returns an error,
  the loop is left at once with that error: whatever probes remain, the outcome of the pass
  from that probe on is the error, and the only calls made are the attach request and the
  log line. In a run whose pass reaches that probe, \<^verbatim>\<open>DnsListenerEbpf\<close> returns the same
  error; after the rejected request it only logs and closes the module.
\<close>

theorem rejected_attach_aborts:
  assumes "lookupSymbol libc_elf (probeFunction uprobe) = Inr offset"
    and "attach_uprobe e uprobe libcFile offset = Some err"
  shows "attachLoop e libcFile libc_elf (uprobe # rest) n =
           (Inl err, [AttachUprobe uprobe libcFile offset, LogError err])
       \<and> (load e = None \<and> findLibc (link_map e) = Inr libcFile
            \<and> elf_open e libcFile = Inr libc_elf
            \<and> uprobes e = before @ uprobe # rest
            \<and> attachLoop e libcFile libc_elf before 0 = (Inr m, tr) \<longrightarrow>
          DnsListenerEbpf e =
            (Returned (Some err),
             Load # tr @ [AttachUprobe uprobe libcFile offset, LogError err, Close]))"
proof -
  have step: "attachLoop e libcFile libc_elf (uprobe # rest) n =
      (Inl err, [AttachUprobe uprobe libcFile offset, LogError err])" for n
    using assms by simp
  have run: "DnsListenerEbpf e =
      (Returned (Some err), Load # tr @ [AttachUprobe uprobe libcFile offset, LogError err, Close])"
    if l: "load e = None" and f: "findLibc (link_map e) = Inr libcFile"
      and o: "elf_open e libcFile = Inr libc_elf"
      and u: "uprobes e = before @ uprobe # rest"
      and b: "attachLoop e libcFile libc_elf before 0 = (Inr m, tr)"
  proof -
    have "attachLoop e libcFile libc_elf (uprobes e) 0 =
        (Inl err, tr @ [AttachUprobe uprobe libcFile offset, LogError err])"
      by (simp add: u attachLoop_append b step del: attachLoop.simps)
    from run_after_pass [OF l f o this] show ?thesis
      by simp
  qed
  show ?thesis
    using step run by blast
qed

theorem rejected_attach_aborts_witness:
  "DnsListenerEbpf rejecting_env =
     (Returned (Some (LibraryError ''rejected'')),
      [Load,
       AttachUprobe ''uprobe/getaddrinfo'' ''/lib/libc.so.6'' 0x1234,
       AttachUprobe ''uretprobe/getaddrinfo'' ''/lib/libc.so.6'' 0x1234,
       LogError (LibraryError ''rejected''), Close])"
proof -
  have l: "lookupSymbol example_elf (probeFunction ''uretprobe/getaddrinfo'') = Inr 0x1234"
    by (simp add: example_targets example_lookups)
  have a: "attach_uprobe rejecting_env ''uretprobe/getaddrinfo'' ''/lib/libc.so.6'' 0x1234
             = Some (LibraryError ''rejected'')"
    by (simp add: rejecting_env_def example_env_def)
  have env: "load rejecting_env = None
      \<and> findLibc (link_map rejecting_env) = Inr ''/lib/libc.so.6''
      \<and> elf_open rejecting_env ''/lib/libc.so.6'' = Inr example_elf
      \<and> uprobes rejecting_env
          = [''uprobe/getaddrinfo''] @ ''uretprobe/getaddrinfo'' # [''uprobe/getnameinfo'']
      \<and> attachLoop rejecting_env ''/lib/libc.so.6'' example_elf [''uprobe/getaddrinfo''] 0
          = (Inr 1, [AttachUprobe ''uprobe/getaddrinfo'' ''/lib/libc.so.6'' 0x1234])"
    by (simp add: rejecting_env_def example_env_def example_libc example_targets example_lookups)
  from rejected_attach_aborts [OF l a, of "[''uprobe/getnameinfo'']" _ "[''uprobe/getaddrinfo'']"
      1 "[AttachUprobe ''uprobe/getaddrinfo'' ''/lib/libc.so.6'' 0x1234]"] env
  have "DnsListenerEbpf rejecting_env =
      (Returned (Some (LibraryError ''rejected'')),
       Load # [AttachUprobe ''uprobe/getaddrinfo'' ''/lib/libc.so.6'' 0x1234]
         @ [AttachUprobe ''uretprobe/getaddrinfo'' ''/lib/libc.so.6'' 0x1234,
            LogError (LibraryError ''rejected''), Close])"
    by blast
  then show ?thesis
    by simp
qed

text \<open>
  C2, as the code has it. Take a run in which the module loads, the library is found and
  opened, and the loop over the declared probes ends with a count. When the count is zero
  the function returns the error for no attached probe, and neither \<^verbatim>\<open>InitPerfMap\<close> nor
  \<^verbatim>\<open>PollStart\<close> is called. When the count is positive, \<^verbatim>\<open>InitPerfMap\<close> is called;
  polling starts when that call succeeds, and when it fails the function returns its error
  without starting polling.
\<close>

theorem attach_count_gates_polling:
  assumes "load e = None" and "findLibc (link_map e) = Inr libcFile"
    and "elf_open e libcFile = Inr libc_elf"
    and "attachLoop e libcFile libc_elf (uprobes e) 0 = (Inr probes_attached, tr)"
  shows "(probes_attached = 0 \<longrightarrow>
            fst (DnsListenerEbpf e) = Returned (Some NoProbesAttached)
            \<and> InitPerfMap \<notin> set (snd (DnsListenerEbpf e))
            \<and> PollStart \<notin> set (snd (DnsListenerEbpf e)))
       \<and> (0 < probes_attached \<longrightarrow>
            InitPerfMap \<in> set (snd (DnsListenerEbpf e))
            \<and> (init_perf_map e = None \<longrightarrow> PollStart \<in> set (snd (DnsListenerEbpf e)))
            \<and> (\<forall>err. init_perf_map e = Some err \<longrightarrow>
                  fst (DnsListenerEbpf e) = Returned (Some err)
                  \<and> PollStart \<notin> set (snd (DnsListenerEbpf e))))"
proof -
  have q: "InitPerfMap \<notin> set tr \<and> PollStart \<notin> set tr"
    using attachLoop_quiet [of e libcFile libc_elf "uprobes e" 0] assms(4) by simp
  note run = run_after_pass [OF assms]
  show ?thesis
    using q by (auto simp: run split: option.splits)
qed

theorem attach_count_gates_polling_witness:
  "attachLoop example_env ''/lib/libc.so.6'' example_elf (uprobes example_env) 0 =
     (Inr 2,
      [AttachUprobe ''uprobe/getaddrinfo'' ''/lib/libc.so.6'' 0x1234,
       AttachUprobe ''uretprobe/getaddrinfo'' ''/lib/libc.so.6'' 0x1234,
       LogWarningSymbol ''uprobe/getnameinfo'' (SymbolNotFound ''getnameinfo'')])
   \<and> InitPerfMap \<in> set (snd (DnsListenerEbpf example_env))
   \<and> PollStart \<in> set (snd (DnsListenerEbpf example_env))"
proof -
  have l: "load example_env = None"
    by (simp add: example_env_def)
  have f: "findLibc (link_map example_env) = Inr ''/lib/libc.so.6''"
    by (simp add: example_env_def example_libc)
  have o: "elf_open example_env ''/lib/libc.so.6'' = Inr example_elf"
    by (simp add: example_env_def)
  have i: "init_perf_map example_env = None"
    by (simp add: example_env_def)
  from attach_count_gates_polling [OF l f o example_pass] i
  have "InitPerfMap \<in> set (snd (DnsListenerEbpf example_env))
      \<and> PollStart \<in> set (snd (DnsListenerEbpf example_env))"
    by simp
  with example_pass show ?thesis
    by blast
qed

text \<open>
  C2, as claimed, fails: in this run two probes are attached, the perf map cannot be
  initialised, and the function returns that error without a call of \<^verbatim>\<open>PollStart\<close>.
\<close>

theorem polling_not_started_counterexample:
  "attachLoop no_events_env ''/lib/libc.so.6'' example_elf (uprobes no_events_env) 0 =
     (Inr 2,
      [AttachUprobe ''uprobe/getaddrinfo'' ''/lib/libc.so.6'' 0x1234,
       AttachUprobe ''uretprobe/getaddrinfo'' ''/lib/libc.so.6'' 0x1234,
       LogWarningSymbol ''uprobe/getnameinfo'' (SymbolNotFound ''getnameinfo'')])
   \<and> DnsListenerEbpf no_events_env =
     (Returned (Some (LibraryError ''no map events'')),
      [Load,
       AttachUprobe ''uprobe/getaddrinfo'' ''/lib/libc.so.6'' 0x1234,
       AttachUprobe ''uretprobe/getaddrinfo'' ''/lib/libc.so.6'' 0x1234,
       LogWarningSymbol ''uprobe/getnameinfo'' (SymbolNotFound ''getnameinfo''),
       InitPerfMap, LogError (LibraryError ''no map events''), Close])
   \<and> PollStart \<notin> set (snd (DnsListenerEbpf no_events_env))"
proof -
  have p: "attachLoop no_events_env ''/lib/libc.so.6'' example_elf (uprobes no_events_env) 0 =
     (Inr 2,
      [AttachUprobe ''uprobe/getaddrinfo'' ''/lib/libc.so.6'' 0x1234,
       AttachUprobe ''uretprobe/getaddrinfo'' ''/lib/libc.so.6'' 0x1234,
       LogWarningSymbol ''uprobe/getnameinfo'' (SymbolNotFound ''getnameinfo'')])"
    by (simp add: no_events_env_def example_env_def example_targets example_lookups)
  have l: "load no_events_env = None"
    by (simp add: no_events_env_def example_env_def)
  have f: "findLibc (link_map no_events_env) = Inr ''/lib/libc.so.6''"
    by (simp add: no_events_env_def example_env_def example_libc)
  have o: "elf_open no_events_env ''/lib/libc.so.6'' = Inr example_elf"
    by (simp add: no_events_env_def example_env_def)
  have i: "init_perf_map no_events_env = Some (LibraryError ''no map events'')"
    by (simp add: no_events_env_def example_env_def)
  show ?thesis
    by (simp add: run_after_pass [OF l f o p] p i)
qed

end
